theory Spec2Isabelle
  imports Complex_Main "HOL-Library.Sublist"
begin

section \<open>JavaScript values used by the handlers\<close>

text \<open>
  The server reads every text field of a multipart form as a string, and a field that
  the form does not carry as \<open>undefined\<close>: a field value is a \<open>string option\<close>, with
  \<open>None\<close> for \<open>undefined\<close>. A \<open>char\<close> is one character with a code below 256.

  A number is a value of the binary64 format: \<open>Num r\<close> is the finite float whose exact
  value is the rational \<open>r\<close> (the two zeros are one value), and there are the three values
  that are not finite.
\<close>

datatype jsnum = NaN | Num rat | PosInf | NegInf

definition js_negate :: "jsnum \<Rightarrow> jsnum" where
  "js_negate x = (case x of NaN \<Rightarrow> NaN | Num r \<Rightarrow> Num (- r) | PosInf \<Rightarrow> NegInf | NegInf \<Rightarrow> PosInf)"

subsection \<open>Rounding to binary64\<close>

text \<open>The number of binary digits of a natural number.\<close>

fun bits :: "nat \<Rightarrow> nat" where
  "bits n = (if n = 0 then 0 else Suc (bits (n div 2)))"

declare bits.simps [simp del]

text \<open>
  For a positive fraction \<open>n / d\<close>, the exponent \<open>e\<close> with \<open>2 ^ e \<le> n / d < 2 ^ (e + 1)\<close>.
\<close>

definition log2_floor :: "nat \<Rightarrow> nat \<Rightarrow> int" where
  "log2_floor n d =
     (if d \<le> n then int (bits (n div d)) - 1
      else - int (bits ((d + n - 1) div n - 1)))"

text \<open>
  The integer nearest to the fraction \<open>a / b\<close>, and the even one of the two when the
  fraction is half way between them.
\<close>

definition round_half_even :: "nat \<Rightarrow> nat \<Rightarrow> nat" where
  "round_half_even a b =
     (if 2 * (a mod b) < b then a div b
      else if b < 2 * (a mod b) then a div b + 1
      else if even (a div b) then a div b else a div b + 1)"

text \<open>\<open>x\<close> times the power \<open>k\<close> of two, for an exponent of either sign.\<close>

definition scale2 :: "int \<Rightarrow> rat \<Rightarrow> rat" where
  "scale2 k x = (if 0 \<le> k then x * 2 ^ nat k else x / 2 ^ nat (- k))"

text \<open>
  The Number value for the mathematical value \<open>n / d\<close>: the float nearest to it, ties to
  the even significand. A float has 53 significant binary digits; its exponent is at
  least \<open>-1022\<close>, so that below \<open>2 ^ -1022\<close> floats are \<open>2 ^ -1074\<close> apart; a value that
  rounds to \<open>2 ^ 1024\<close> or more is \<open>Infinity\<close>.
\<close>

definition binary64 :: "nat \<Rightarrow> nat \<Rightarrow> jsnum" where
  "binary64 n d =
     (if n = 0 then Num 0
      else
        let e = max (log2_floor n d) (- 1022);
            m = (if e \<le> 52 then round_half_even (n * 2 ^ nat (52 - e)) d
                 else round_half_even n (d * 2 ^ nat (e - 52)));
            r = scale2 (e - 52) (of_nat m)
        in if 2 ^ 1024 \<le> r then PosInf else Num r)"

subsection \<open>Strings and numbers\<close>

text \<open>\<open>!x\<close> for \<open>x\<close> a string or \<open>undefined\<close>: true on \<open>undefined\<close> and on the empty string.\<close>

definition falsy :: "string option \<Rightarrow> bool" where
  "falsy x = (case x of None \<Rightarrow> True | Some s \<Rightarrow> s = [])"

text \<open>
  White space as \<open>\s\<close> of a regular expression and as \<open>StrWhiteSpaceChar\<close> of the number
  grammar have it, for the characters below 256: TAB, LF, VT, FF, CR, SP and NBSP.
\<close>

definition js_white :: "char \<Rightarrow> bool" where
  "js_white c = ((of_char c :: nat) \<in> {9, 10, 11, 12, 13, 32, 160})"

definition js_trim :: "string \<Rightarrow> string" where
  "js_trim s = rev (dropWhile js_white (rev (dropWhile js_white s)))"

text \<open>The value of a character as a digit of the given radix, for radix at most 16.\<close>

definition digit_of :: "nat \<Rightarrow> char \<Rightarrow> nat option" where
  "digit_of radix c =
     (let n = (of_char c :: nat);
          d = (if 48 \<le> n \<and> n \<le> 57 then Some (n - 48)
               else if 97 \<le> n \<and> n \<le> 102 then Some (n - 87)
               else if 65 \<le> n \<and> n \<le> 70 then Some (n - 55)
               else None)
      in case d of None \<Rightarrow> None | Some v \<Rightarrow> if v < radix then Some v else None)"

text \<open>A non-empty run of digits and its value; \<open>None\<close> when it is empty or holds another character.\<close>

definition digits_val :: "nat \<Rightarrow> string \<Rightarrow> nat option" where
  "digits_val radix s =
     (if s = [] then None
      else case those (map (digit_of radix) s) of
             None \<Rightarrow> None
           | Some ds \<Rightarrow> Some (foldl (\<lambda>a d. a * radix + d) 0 ds))"

text \<open>\<open>ExponentPart\<close>: nothing, or \<open>e\<close>/\<open>E\<close> followed by a signed run of decimal digits.\<close>

definition exponent_part :: "string \<Rightarrow> int option" where
  "exponent_part s =
     (case s of
        [] \<Rightarrow> Some 0
      | c # t \<Rightarrow>
          (if c = CHR ''e'' \<or> c = CHR ''E'' then
             (case t of
                [] \<Rightarrow> None
              | d # u \<Rightarrow>
                  if d = CHR ''-'' then map_option (\<lambda>n. - int n) (digits_val 10 u)
                  else if d = CHR ''+'' then map_option int (digits_val 10 u)
                  else map_option int (digits_val 10 t))
           else None))"

text \<open>
  \<open>StrUnsignedDecimalLiteral\<close>: \<open>Infinity\<close>, or digits with an optional fraction and an
  optional exponent, at least one digit before or after the point. Its value is the
  float nearest to the number the literal denotes, which is a fraction of two natural
  numbers.
\<close>

definition unsigned_decimal :: "string \<Rightarrow> jsnum" where
  "unsigned_decimal s =
     (if s = ''Infinity'' then PosInf
      else
        let is_e = (\<lambda>c. c = CHR ''e'' \<or> c = CHR ''E'');
            mant = takeWhile (\<lambda>c. \<not> is_e c) s;
            ip = takeWhile (\<lambda>c. c \<noteq> CHR ''.'') mant;
            rest = dropWhile (\<lambda>c. c \<noteq> CHR ''.'') mant;
            fp = (if rest = [] then [] else tl rest);
            iv = (if ip = [] then Some 0 else digits_val 10 ip);
            fv = (if fp = [] then Some 0 else digits_val 10 fp)
        in if ip = [] \<and> fp = [] then NaN
           else case (iv, fv, exponent_part (dropWhile (\<lambda>c. \<not> is_e c) s)) of
                  (Some i, Some f, Some e) \<Rightarrow>
                    binary64 ((i * 10 ^ length fp + f) * 10 ^ nat e)
                             (10 ^ length fp * 10 ^ nat (- e))
                | _ \<Rightarrow> NaN)"

text \<open>
  \<open>StringToNumber\<close>: white space is trimmed, the empty string is 0, a literal with prefix
  \<open>0x\<close>, \<open>0o\<close> or \<open>0b\<close> is an unsigned integer of that radix, everything else is a signed
  decimal literal or \<open>NaN\<close>.
\<close>

definition ToNumber :: "string \<Rightarrow> jsnum" where
  "ToNumber s =
     (let t = js_trim s in
      case t of
        [] \<Rightarrow> Num 0
      | c # u \<Rightarrow>
          if c = CHR ''+'' then unsigned_decimal u
          else if c = CHR ''-'' then js_negate (unsigned_decimal u)
          else if c = CHR ''0'' \<and> u \<noteq> [] \<and> hd u \<in> {CHR ''x'', CHR ''X''} then
            (case digits_val 16 (tl u) of None \<Rightarrow> NaN | Some n \<Rightarrow> binary64 n 1)
          else if c = CHR ''0'' \<and> u \<noteq> [] \<and> hd u \<in> {CHR ''o'', CHR ''O''} then
            (case digits_val 8 (tl u) of None \<Rightarrow> NaN | Some n \<Rightarrow> binary64 n 1)
          else if c = CHR ''0'' \<and> u \<noteq> [] \<and> hd u \<in> {CHR ''b'', CHR ''B''} then
            (case digits_val 2 (tl u) of None \<Rightarrow> NaN | Some n \<Rightarrow> binary64 n 1)
          else unsigned_decimal t)"

text \<open>\<open>Number(x)\<close> for \<open>x\<close> a string or \<open>undefined\<close>.\<close>

definition Number :: "string option \<Rightarrow> jsnum" where
  "Number x = (case x of None \<Rightarrow> NaN | Some s \<Rightarrow> ToNumber s)"

text \<open>\<open>a < b\<close> on numbers: false as soon as one side is \<open>NaN\<close>.\<close>

definition js_lt :: "jsnum \<Rightarrow> jsnum \<Rightarrow> bool" where
  "js_lt a b =
     (case (a, b) of
        (NaN, _) \<Rightarrow> False
      | (_, NaN) \<Rightarrow> False
      | (Num x, Num y) \<Rightarrow> x < y
      | (NegInf, NegInf) \<Rightarrow> False
      | (NegInf, _) \<Rightarrow> True
      | (_, NegInf) \<Rightarrow> False
      | (PosInf, _) \<Rightarrow> False
      | (_, PosInf) \<Rightarrow> True)"

text \<open>The decimal rendering of a non-negative integer, as string concatenation produces it.\<close>

definition digit_char :: "nat \<Rightarrow> char" where
  "digit_char d = ''0123456789'' ! d"

fun dec :: "nat \<Rightarrow> string" where
  "dec n = (if n < 10 then [digit_char n] else dec (n div 10) @ [digit_char (n mod 10)])"

declare dec.simps [simp del]

text \<open>\<open>s.replace(/\s+/g, '')\<close>: every white space character is dropped.\<close>

definition strip_ws :: "string \<Rightarrow> string" where
  "strip_ws s = filter (\<lambda>c. \<not> js_white c) s"

subsection \<open>\<open>path.extname\<close>\<close>

text \<open>
  The POSIX \<open>path.extname\<close> of Node: one pass from the last character to the first, with
  the five variables of the library's loop as arguments. The index \<open>-1\<close> stands for "not
  seen yet". \<open>extname_loop p n\<close> runs the loop body for \<open>i = n - 1\<close> down to \<open>0\<close> and
  returns \<open>startDot\<close>, \<open>startPart\<close>, \<open>end\<close> and \<open>preDotState\<close>.
\<close>

fun extname_loop :: "string \<Rightarrow> nat \<Rightarrow> int \<Rightarrow> int \<Rightarrow> int \<Rightarrow> bool \<Rightarrow> int \<Rightarrow> int \<times> int \<times> int \<times> int" where
  "extname_loop p 0 startDot startPart end_pos matchedSlash preDotState =
     (startDot, startPart, end_pos, preDotState)"
| "extname_loop p (Suc i) startDot startPart end_pos matchedSlash preDotState =
     (if p ! i = CHR ''/'' then
        (if \<not> matchedSlash then (startDot, int i + 1, end_pos, preDotState)
         else extname_loop p i startDot startPart end_pos matchedSlash preDotState)
      else
        extname_loop p i
          (if p ! i = CHR ''.'' \<and> startDot = - 1 then int i else startDot)
          startPart
          (if end_pos = - 1 then int i + 1 else end_pos)
          (if end_pos = - 1 then False else matchedSlash)
          (if p ! i = CHR ''.'' then
             (if startDot = - 1 then preDotState
              else if preDotState \<noteq> 1 then 1
              else preDotState)
           else if startDot \<noteq> - 1 then - 1
           else preDotState))"

definition extname :: "string \<Rightarrow> string" where
  "extname p =
     (case extname_loop p (length p) (- 1) 0 (- 1) True 0 of
        (startDot, startPart, end_pos, preDotState) \<Rightarrow>
          if startDot = - 1 \<or> end_pos = - 1 \<or> preDotState = 0 \<or>
             (preDotState = 1 \<and> startDot = end_pos - 1 \<and> startDot = startPart + 1)
          then []
          else take (nat (end_pos - startDot)) (drop (nat startDot) p))"

section \<open>The review document and its schema\<close>

text \<open>
  The model follows \<open>src/index.js\<close>, the variant that keeps the images on the local disk.
  The three handlers that read, the schema and the checks of the creating handler are the
  same in the other two variants.

  A stored review, with the paths of \<open>bikeSchema\<close> (lines 88 to 101). \<open>bike_id\<close> is the \<open>_id\<close> of the document,
  an ObjectId read as the number its 24 hexadecimal digits denote; \<open>createdAt\<close> is in
  milliseconds.
\<close>

record bike =
  bike_id :: nat
  riderName :: string
  bikeName :: string
  modelName :: string
  purchaseYear :: jsnum
  totalKM :: jsnum
  bikeCost :: jsnum
  costPerService :: jsnum
  review :: string
  rating :: jsnum
  worthTheCost :: string
  images :: "string list"
  createdAt :: int

text \<open>
  The object given to \<open>new Bike(...)\<close>. A string path holds a string or \<open>undefined\<close>, a
  number path a number or \<open>undefined\<close>.
\<close>

record bike_init =
  in_riderName :: "string option"
  in_bikeName :: "string option"
  in_modelName :: "string option"
  in_purchaseYear :: "jsnum option"
  in_totalKM :: "jsnum option"
  in_bikeCost :: "jsnum option"
  in_costPerService :: "jsnum option"
  in_review :: "string option"
  in_rating :: "jsnum option"
  in_worthTheCost :: "string option"
  in_images :: "string list"

text \<open>
  Validation of a document before it is saved, path by path as the schema declares them.
  A number path whose value is \<open>NaN\<close> fails its cast. \<open>required\<close> asks a string to be
  non-empty and a number to be present; \<open>min\<close>, \<open>max\<close> and \<open>enum\<close> pass on a path that is
  not set. A default stands in for \<open>undefined\<close> only.
\<close>

definition required_string :: "string option \<Rightarrow> bool" where
  "required_string x = (case x of None \<Rightarrow> False | Some s \<Rightarrow> s \<noteq> [])"

definition cast_ok :: "jsnum option \<Rightarrow> bool" where
  "cast_ok x = (x \<noteq> Some NaN)"

definition required_number :: "jsnum option \<Rightarrow> bool" where
  "required_number x = (x \<noteq> None \<and> cast_ok x)"

definition js_ge :: "jsnum \<Rightarrow> jsnum \<Rightarrow> bool" where
  "js_ge a b = (a \<noteq> NaN \<and> b \<noteq> NaN \<and> \<not> js_lt a b)"

definition min_max :: "rat \<Rightarrow> rat \<Rightarrow> jsnum option \<Rightarrow> bool" where
  "min_max lo hi x = (case x of None \<Rightarrow> True | Some n \<Rightarrow> js_ge n (Num lo) \<and> js_ge (Num hi) n)"

definition worth_enum :: "string list" where
  "worth_enum = [''Yes'', ''Definitely Yes'', ''No'']"

definition enum_ok :: "string option \<Rightarrow> bool" where
  "enum_ok x = (case x of None \<Rightarrow> True | Some s \<Rightarrow> s \<in> set worth_enum)"

definition validate :: "bike_init \<Rightarrow> bool" where
  "validate i =
     (required_string (in_riderName i) \<and>
      required_string (in_bikeName i) \<and>
      required_string (in_modelName i) \<and>
      required_number (in_purchaseYear i) \<and>
      cast_ok (in_totalKM i) \<and>
      required_number (in_bikeCost i) \<and>
      cast_ok (in_costPerService i) \<and>
      required_string (in_review i) \<and>
      required_number (in_rating i) \<and> min_max 1 5 (in_rating i) \<and>
      enum_ok (in_worthTheCost i))"

definition str_of :: "string option \<Rightarrow> string" where
  "str_of x = (case x of None \<Rightarrow> [] | Some s \<Rightarrow> s)"

definition num_or :: "jsnum \<Rightarrow> jsnum option \<Rightarrow> jsnum" where
  "num_or d x = (case x of None \<Rightarrow> d | Some n \<Rightarrow> n)"

text \<open>
  \<open>new Bike(i)\<close>: the document with its defaults filled in, a fresh \<open>_id\<close> and the time of
  construction as \<open>createdAt\<close>.
\<close>

definition new_Bike :: "nat \<Rightarrow> int \<Rightarrow> bike_init \<Rightarrow> bike" where
  "new_Bike oid t i =
     \<lparr>bike_id = oid,
      riderName = str_of (in_riderName i),
      bikeName = str_of (in_bikeName i),
      modelName = str_of (in_modelName i),
      purchaseYear = num_or NaN (in_purchaseYear i),
      totalKM = num_or (Num 0) (in_totalKM i),
      bikeCost = num_or NaN (in_bikeCost i),
      costPerService = num_or (Num 0) (in_costPerService i),
      review = str_of (in_review i),
      rating = num_or NaN (in_rating i),
      worthTheCost = (case in_worthTheCost i of None \<Rightarrow> ''Yes'' | Some s \<Rightarrow> s),
      images = in_images i,
      createdAt = t\<rparr>"

section \<open>The server's state and its responses\<close>

text \<open>
  What a request can observe and change: the documents of the collection in the order of
  their insertion, whether the database answers, and the effects so far in the order in
  which they happened (an insert into the collection, an event sent to the connected
  clients). Files on disk are not part of the state.
\<close>

datatype event = Inserted bike | Emitted string bike

record world =
  db :: "bike list"
  db_up :: bool
  trace :: "event list"

text \<open>
  An error object. \<open>new Error(msg)\<close> has this message and no code; an error of the upload
  middleware itself has a code, and its message is left open (\<open>None\<close>). Neither carries a
  \<open>status\<close> property.
\<close>

record js_error =
  err_message :: "string option"
  err_code :: "string option"
  err_status :: "nat option"

definition new_Error :: "string \<Rightarrow> js_error" where
  "new_Error msg = \<lparr>err_message = Some msg, err_code = None, err_status = None\<rparr>"

definition MulterError :: "string \<Rightarrow> js_error" where
  "MulterError c = \<lparr>err_message = None, err_code = Some c, err_status = None\<rparr>"

datatype payload = Message string | Doc bike | Docs "bike list" | ErrorPage js_error

record response =
  status :: nat
  body :: payload

definition json :: "nat \<Rightarrow> payload \<Rightarrow> response" where
  "json st p = \<lparr>status = st, body = p\<rparr>"

text \<open>
  The application installs no error-handling middleware, so an error passed to \<open>next\<close> is
  answered by the framework's final handler: the error's own status when it is one of
  4xx or 5xx, and 500 otherwise, with a page that shows the error.
\<close>

definition final_handler :: "js_error \<Rightarrow> response" where
  "final_handler e =
     \<lparr>status = (case err_status e of
                  None \<Rightarrow> 500
                | Some st \<Rightarrow> if 400 \<le> st \<and> st < 600 then st else 500),
      body = ErrorPage e\<rparr>"

section \<open>The upload middleware\<close>

text \<open>
  A request to \<open>POST /api/bikes/add\<close> is the sequence of the parts of its multipart body,
  in the order they are sent: text fields and files. A file part is seen as the
  middleware sees it: the name of its field, the file name the client gave (empty for a
  file input that was left unfilled), the declared type, the length of the content in
  bytes, and whether the image library can decode the content.
\<close>

record upload =
  fieldname :: string
  originalname :: string
  mimetype :: string
  file_size :: nat
  decodable :: bool

datatype part = FieldPart string string | FilePart upload

text \<open>
  An entry of \<open>req.files\<close>: the uploaded file with the directory and the name the disk
  storage gave it. The directory is named relative to the uploads directory.
\<close>

record stored = upload +
  destination :: string
  filename :: string

text \<open>\<open>req.body\<close>, as long as every entry of it is a string.\<close>

type_synonym form = "string \<rightharpoonup> string"

definition fileSize :: nat where
  "fileSize = 5 * 1024 * 1024"

definition allowedTypes :: "string list" where
  "allowedTypes = [''image/jpeg'', ''image/png'', ''image/gif'']"

text \<open>
  \<open>limits.fileSize\<close> and \<open>fileFilter\<close> (lines 67 to 80): \<open>None\<close> accepts the file, \<open>Some e\<close>
  is the error given to the callback.
\<close>

definition fileFilter :: "upload \<Rightarrow> js_error option" where
  "fileFilter u =
     (if mimetype u \<in> set allowedTypes then None
      else Some (new_Error ''Invalid file type. Only JPEG, PNG, and GIF are allowed.''))"

definition folderName_of :: "string \<Rightarrow> string \<Rightarrow> string" where
  "folderName_of b m = strip_ws b @ ''-'' @ strip_ws m"

text \<open>
  A name that the file system takes as one component of a path whatever the platform's
  limits are: no NUL, no slash, at most 127 characters.
\<close>

definition path_component :: "string \<Rightarrow> bool" where
  "path_component s = (CHR 0x00 \<notin> set s \<and> CHR ''/'' \<notin> set s \<and> length s \<le> 127)"

text \<open>
  \<open>destination\<close> of the disk storage (lines 45 to 59), on the fields received before the
  file. It makes the directory when it is not there; the result is \<open>None\<close>, which means
  that the model does not say what happens, when the name of the directory is not a
  single path component.
\<close>

definition destination_cb :: "form \<Rightarrow> (js_error + string) option" where
  "destination_cb rb =
     (if falsy (rb ''bikeName'') \<or> falsy (rb ''modelName'')
      then Some (Inl (new_Error ''Bike name and model are required''))
      else
        let folderName = folderName_of (str_of (rb ''bikeName'')) (str_of (rb ''modelName''))
        in if path_component folderName then Some (Inr folderName) else None)"

text \<open>
  \<open>filename\<close> of the disk storage (lines 60 to 64). The pair is what \<open>Date.now()\<close> and
  \<open>Math.round(Math.random() * 1E9)\<close> return for this file.
\<close>

definition filename_cb :: "nat \<times> nat \<Rightarrow> upload \<Rightarrow> string" where
  "filename_cb tr u = dec (fst tr) @ ''-'' @ dec (snd tr) @ extname (originalname u)"

text \<open>
  The state of \<open>upload.array('bikeImages', 5)\<close> while it reads the parts: the fields and
  files so far, and how many more files the field may take.
\<close>

record mstate =
  m_body :: form
  m_files :: "stored list"
  filesLeft :: nat

text \<open>
  A text field that the middleware stores in \<open>req.body\<close> as a string under its own name:
  its name is not empty, has no bracket (with one the middleware builds a nested object)
  and was not sent before (for a name sent again the middleware builds an array), and
  name and value stay below the default limits of 100 bytes and 1 MiB, a character
  taking at most two bytes.
\<close>

definition plain_field :: "form \<Rightarrow> string \<Rightarrow> string \<Rightarrow> bool" where
  "plain_field rb n v =
     (n \<noteq> [] \<and> CHR ''['' \<notin> set n \<and> rb n = None \<and> length n < 50 \<and> length v < 524288)"

text \<open>
  The parts are handled in order and the first error ends the upload. A file part
  without a file name is dropped before anything else is looked at. For every other
  file: the field name and the count are checked first, then \<open>fileFilter\<close>, then the
  storage asks for the destination and the name and takes the content, which fails when
  it is longer than the limit.

  The result is \<open>None\<close> where the model does not say what the middleware does: on a text
  field that is not plain in the sense above, on a file whose field name is empty, on a
  file name with a NUL or of more than 100 characters, on a directory name that is not
  a single path component, and on a file of exactly the limit's length (whether this
  length is refused depends on the version of the library).
\<close>

fun multer_parts :: "(nat \<Rightarrow> nat \<times> nat) \<Rightarrow> part list \<Rightarrow> mstate \<Rightarrow> (js_error + mstate) option" where
  "multer_parts stamp [] st = Some (Inr st)"
| "multer_parts stamp (FieldPart n v # ps) st =
     (if plain_field (m_body st) n v
      then multer_parts stamp ps (st\<lparr>m_body := (m_body st)(n \<mapsto> v)\<rparr>)
      else None)"
| "multer_parts stamp (FilePart u # ps) st =
     (if originalname u = [] then multer_parts stamp ps st
      else if fieldname u = [] \<or> CHR 0x00 \<in> set (originalname u) \<or> 100 < length (originalname u)
      then None
      else if fieldname u \<noteq> ''bikeImages'' \<or> filesLeft st = 0
      then Some (Inl (MulterError ''LIMIT_UNEXPECTED_FILE''))
      else case fileFilter u of
             Some e \<Rightarrow> Some (Inl e)
           | None \<Rightarrow>
               (case destination_cb (m_body st) of
                  None \<Rightarrow> None
                | Some (Inl e) \<Rightarrow> Some (Inl e)
                | Some (Inr dir) \<Rightarrow>
                    if fileSize < file_size u then Some (Inl (MulterError ''LIMIT_FILE_SIZE''))
                    else if file_size u = fileSize then None
                    else multer_parts stamp ps
                           (st\<lparr>m_files := m_files st @
                                  [upload.extend u
                                     (stored.fields dir
                                        (filename_cb (stamp (length (m_files st))) u))],
                               filesLeft := filesLeft st - 1\<rparr>)))"

text \<open>\<open>upload.array('bikeImages', 5)\<close>: an error for \<open>next\<close>, or \<open>req.body\<close> and \<open>req.files\<close>.\<close>

definition upload_array ::
  "(nat \<Rightarrow> nat \<times> nat) \<Rightarrow> part list \<Rightarrow> (js_error + form \<times> stored list) option" where
  "upload_array stamp ps =
     (case multer_parts stamp ps \<lparr>m_body = Map.empty, m_files = [], filesLeft = 5\<rparr> of
        None \<Rightarrow> None
      | Some (Inl e) \<Rightarrow> Some (Inl e)
      | Some (Inr st) \<Rightarrow> Some (Inr (m_body st, m_files st)))"

section \<open>The handlers\<close>

text \<open>
  What the environment gives a request that creates a review: the identifier of the new
  document, the clock at its construction, and the time and random number drawn for
  the name of each uploaded file.
\<close>

record env =
  new_id :: nat
  now :: int
  stamp :: "nat \<Rightarrow> nat \<times> nat"

text \<open>The two conditions of the first check that read \<open>rating\<close> as a number.\<close>

definition rating_out_of_range :: "string option \<Rightarrow> bool" where
  "rating_out_of_range r = (js_lt (Number r) (Num 1) \<or> js_lt (Num 5) (Number r))"

definition fields_rejected :: "form \<Rightarrow> bool" where
  "fields_rejected rb =
     (falsy (rb ''riderName'') \<or> falsy (rb ''bikeName'') \<or> falsy (rb ''modelName'') \<or>
      falsy (rb ''review'') \<or> falsy (rb ''rating'') \<or> rating_out_of_range (rb ''rating''))"

text \<open>
  One image through the image library: the reference of the compressed file, or the
  library's error when it cannot decode the upload.
\<close>

definition process_image :: "string \<Rightarrow> stored \<Rightarrow> js_error + string" where
  "process_image folderName f =
     (let outputFilename = ''compressed-'' @ filename f in
      if decodable f then Inr (''/uploads/'' @ folderName @ ''/'' @ outputFilename)
      else Inl (new_Error ''Input file contains unsupported image format''))"

text \<open>\<open>Promise.all\<close>: the results in the order of the inputs, or a rejection.\<close>

fun promise_all :: "('e + 'a) list \<Rightarrow> 'e + 'a list" where
  "promise_all [] = Inr []"
| "promise_all (Inl e # rs) = Inl e"
| "promise_all (Inr x # rs) = (case promise_all rs of Inl e \<Rightarrow> Inl e | Inr xs \<Rightarrow> Inr (x # xs))"

text \<open>
  \<open>doc.save()\<close>: validation, then the insert, which needs the database and which the
  database refuses when the collection has a document of the same \<open>_id\<close>.
\<close>

definition save :: "world \<Rightarrow> bike_init \<Rightarrow> bike \<Rightarrow> js_error + world" where
  "save w i b =
     (if \<not> validate i then Inl (new_Error ''Bike validation failed'')
      else if \<not> db_up w then Inl (new_Error ''database unavailable'')
      else if list_ex (\<lambda>x. bike_id x = bike_id b) (db w)
      then Inl (new_Error ''E11000 duplicate key error'')
      else Inr (w\<lparr>db := db w @ [b], trace := trace w @ [Inserted b]\<rparr>))"

definition io_emit :: "string \<Rightarrow> bike \<Rightarrow> world \<Rightarrow> world" where
  "io_emit name b w = w\<lparr>trace := trace w @ [Emitted name b]\<rparr>"

definition server_error :: response where
  "server_error = json 500 (Message ''Server error'')"

text \<open>
  The object the handler gives to \<open>new Bike(...)\<close>: the string fields as they are, the
  number fields through \<open>Number\<close>, and the references of the processed images.
\<close>

definition review_fields :: "form \<Rightarrow> string list \<Rightarrow> bike_init" where
  "review_fields rb processedImagePaths =
     \<lparr>in_riderName = rb ''riderName'',
      in_bikeName = rb ''bikeName'',
      in_modelName = rb ''modelName'',
      in_purchaseYear = Some (Number (rb ''purchaseYear'')),
      in_totalKM = Some (Number (rb ''totalKM'')),
      in_bikeCost = Some (Number (rb ''bikeCost'')),
      in_costPerService = Some (Number (rb ''costPerService'')),
      in_review = rb ''review'',
      in_rating = Some (Number (rb ''rating'')),
      in_worthTheCost = rb ''worthTheCost'',
      in_images = processedImagePaths\<rparr>"

text \<open>\<open>req.files\<close> once the handler knows that it is set.\<close>

definition files_of :: "stored list option \<Rightarrow> stored list" where
  "files_of files = (case files of None \<Rightarrow> [] | Some fs \<Rightarrow> fs)"

text \<open>
  The handler of \<open>POST /api/bikes/add\<close> (lines 157 to 223), on the \<open>req.body\<close> and
  \<open>req.files\<close> it is given. Every error thrown inside it is caught and answered with 500.
\<close>

definition add_handler :: "env \<Rightarrow> world \<Rightarrow> form \<Rightarrow> stored list option \<Rightarrow> response \<times> world" where
  "add_handler en w rb files =
     (if fields_rejected rb
      then (json 400 (Message ''All required fields must be provided''), w)
      else if (case files of None \<Rightarrow> True | Some fs \<Rightarrow> length fs < 3)
      then (json 400 (Message ''At least 3 images are required''), w)
      else
        let folderName = folderName_of (str_of (rb ''bikeName'')) (str_of (rb ''modelName''))
        in case promise_all (map (process_image folderName) (files_of files)) of
             Inl e \<Rightarrow> (server_error, w)
           | Inr processedImagePaths \<Rightarrow>
               (let i = review_fields rb processedImagePaths;
                    newBike = new_Bike (new_id en) (now en) i
                in (case save w i newBike of
                      Inl e \<Rightarrow> (server_error, w)
                    | Inr w' \<Rightarrow> (json 201 (Doc newBike), io_emit ''newReview'' newBike w'))))"

text \<open>
  The route: the upload middleware, then the handler or the final handler. The result is
  \<open>None\<close> on the requests for which the model of the upload middleware says nothing.
\<close>

definition submit :: "env \<Rightarrow> world \<Rightarrow> part list \<Rightarrow> (response \<times> world) option" where
  "submit en w ps =
     (case upload_array (stamp en) ps of
        None \<Rightarrow> None
      | Some (Inl e) \<Rightarrow> Some (final_handler e, w)
      | Some (Inr (rb, files)) \<Rightarrow> Some (add_handler en w rb (Some files)))"

text \<open>
  What happens to the server between two moments: a request to \<open>POST /api/bikes/add\<close>
  is served, or the database becomes unreachable or reachable again. The three handlers
  that read return a response and leave the state as it is. \<open>after steps w\<close> is the state
  that \<open>steps\<close> lead to from \<open>w\<close>.
\<close>

datatype step = Submission env "part list" | Reachable bool


section \<open>The database's regular expressions\<close>

text \<open>
  \<open>$regex\<close> with \<open>$options: 'i'\<close> is evaluated by the database, with a Perl-compatible
  engine. The model covers the patterns built from literal characters, \<open>.\<close>, \<open>|\<close>,
  groups in parentheses, one of the quantifiers \<open>*\<close>, \<open>+\<close>, \<open>?\<close> after an item, and
  a backslash before a character that is neither a letter nor a digit. A pattern that
  uses anything else (anchors, classes, braces, a backslash before a letter or digit, a
  second quantifier, \<open>(?\<close> and \<open>(*\<close>, a character outside 1..127) is \<open>Unmodelled\<close>: the
  model says nothing about it. A pattern that the engine refuses to compile is
  \<open>Rejected\<close>.
\<close>

datatype rx = Never | Empty | Lit char | Dot | Or rx rx | Seq rx rx | Rep rx

datatype compiled = Compiled rx | Rejected | Unmodelled

text \<open>Letters without their case: \<open>A\<close> to \<open>Z\<close> go to \<open>a\<close> to \<open>z\<close>, every other character stays.\<close>

definition fold_case :: "char \<Rightarrow> char" where
  "fold_case c =
     (case map_of (zip ''ABCDEFGHIJKLMNOPQRSTUVWXYZ'' ''abcdefghijklmnopqrstuvwxyz'') c of
        None \<Rightarrow> c
      | Some d \<Rightarrow> d)"

primrec nullable :: "rx \<Rightarrow> bool" where
  "nullable Never = False"
| "nullable Empty = True"
| "nullable (Lit a) = False"
| "nullable Dot = False"
| "nullable (Or r t) = (nullable r \<or> nullable t)"
| "nullable (Seq r t) = (nullable r \<and> nullable t)"
| "nullable (Rep r) = True"

text \<open>
  What is left of a pattern after it has read the character \<open>c\<close>. A literal reads a
  character equal to it up to case, \<open>.\<close> reads every character but the line feed.
\<close>

primrec deriv :: "char \<Rightarrow> rx \<Rightarrow> rx" where
  "deriv c Never = Never"
| "deriv c Empty = Never"
| "deriv c (Lit a) = (if fold_case a = fold_case c then Empty else Never)"
| "deriv c Dot = (if c = CHR 0x0A then Never else Empty)"
| "deriv c (Or r t) = Or (deriv c r) (deriv c t)"
| "deriv c (Seq r t) =
     (if nullable r then Or (Seq (deriv c r) t) (deriv c t) else Seq (deriv c r) t)"
| "deriv c (Rep r) = Seq (deriv c r) (Rep r)"

text \<open>The pattern matches a prefix of the string; the pattern matches somewhere in it.\<close>

primrec prefix_match :: "rx \<Rightarrow> string \<Rightarrow> bool" where
  "prefix_match r [] = nullable r"
| "prefix_match r (c # cs) = (nullable r \<or> prefix_match (deriv c r) cs)"

primrec rx_search :: "rx \<Rightarrow> string \<Rightarrow> bool" where
  "rx_search r [] = nullable r"
| "rx_search r (c # cs) = (prefix_match r (c # cs) \<or> rx_search r cs)"

subsection \<open>Reading a pattern\<close>

definition special_chars :: "char list" where
  "special_chars = [CHR 0x5C, CHR ''^'', CHR ''$'', CHR ''.'', CHR ''['', CHR '']'', CHR ''|'',
                    CHR ''('', CHR '')'', CHR ''?'', CHR ''*'', CHR ''+'', CHR ''{'', CHR ''}'']"

definition plain_char :: "char \<Rightarrow> bool" where
  "plain_char c = (1 \<le> (of_char c :: nat) \<and> (of_char c :: nat) \<le> 127 \<and> c \<notin> set special_chars)"

definition alnum :: "char \<Rightarrow> bool" where
  "alnum c =
     (let n = (of_char c :: nat)
      in (48 \<le> n \<and> n \<le> 57) \<or> (65 \<le> n \<and> n \<le> 90) \<or> (97 \<le> n \<and> n \<le> 122))"

definition escapable :: "char \<Rightarrow> bool" where
  "escapable c = (32 \<le> (of_char c :: nat) \<and> (of_char c :: nat) \<le> 126 \<and> \<not> alnum c)"

text \<open>What the reader saw last in the group it is in.\<close>

datatype seen = AtStart | AfterOpen | AfterBar | AfterItem | AfterQuantifier

text \<open>
  An open group: the alternatives that are complete, the items of the alternative being
  read (the last one first), and what was seen last.
\<close>

type_synonym frame = "rx list \<times> rx list \<times> seen"

definition seq_of :: "rx list \<Rightarrow> rx" where
  "seq_of items = foldr Seq (rev items) Empty"

definition close_frame :: "rx list \<Rightarrow> rx list \<Rightarrow> rx" where
  "close_frame alts items = foldr Or alts (seq_of items)"

definition quantify :: "char \<Rightarrow> rx \<Rightarrow> rx" where
  "quantify q r =
     (if q = CHR ''*'' then Rep r
      else if q = CHR ''+'' then Seq r (Rep r)
      else Or r Empty)"

text \<open>
  One pass over the pattern with the stack of the open groups, the innermost first;
  \<open>esc\<close> says that the character before was a backslash.
\<close>

primrec parse_rx :: "string \<Rightarrow> bool \<Rightarrow> frame list \<Rightarrow> compiled" where
  "parse_rx [] esc st =
     (if esc then Rejected
      else case st of
             [(alts, items, l)] \<Rightarrow> Compiled (close_frame alts items)
           | _ \<Rightarrow> Rejected)"
| "parse_rx (c # cs) esc st =
     (case st of
        [] \<Rightarrow> Rejected
      | (alts, items, l) # up \<Rightarrow>
          if esc then
            (if escapable c then parse_rx cs False ((alts, Lit c # items, AfterItem) # up)
             else Unmodelled)
          else if c = CHR 0x5C then parse_rx cs True st
          else if c = CHR ''('' then parse_rx cs False (([], [], AfterOpen) # st)
          else if c = CHR '')'' then
            (case up of
               [] \<Rightarrow> Rejected
             | (alts', items', l') # up' \<Rightarrow>
                 parse_rx cs False ((alts', close_frame alts items # items', AfterItem) # up'))
          else if c = CHR ''|'' then
            parse_rx cs False ((alts @ [seq_of items], [], AfterBar) # up)
          else if c = CHR ''*'' \<or> c = CHR ''+'' \<or> c = CHR ''?'' then
            (case l of
               AfterItem \<Rightarrow>
                 (case items of
                    [] \<Rightarrow> Rejected
                  | r # rs \<Rightarrow> parse_rx cs False ((alts, quantify c r # rs, AfterQuantifier) # up))
             | AfterQuantifier \<Rightarrow> Unmodelled
             | AfterOpen \<Rightarrow> Unmodelled
             | AtStart \<Rightarrow> Rejected
             | AfterBar \<Rightarrow> Rejected)
          else if c = CHR ''.'' then parse_rx cs False ((alts, Dot # items, AfterItem) # up)
          else if plain_char c then parse_rx cs False ((alts, Lit c # items, AfterItem) # up)
          else Unmodelled)"

definition compile :: "string \<Rightarrow> compiled" where
  "compile p = parse_rx p False [([], [], AtStart)]"

section \<open>The handlers that read\<close>

text \<open>\<open>sort({ createdAt: -1 })\<close>; documents of the same time keep the order of their insertion.\<close>

definition newest_first :: "bike list \<Rightarrow> bike list" where
  "newest_first bs = sort_key (\<lambda>b. - createdAt b) bs"

text \<open>\<open>GET /api/bikes\<close> (lines 112 to 120).\<close>

definition list_handler :: "world \<Rightarrow> response" where
  "list_handler w = (if db_up w then json 200 (Docs (newest_first (db w))) else server_error)"

text \<open>
  \<open>GET /api/bikes/search\<close> (lines 122 to 142), on \<open>req.query.query\<close> as a string or
  \<open>undefined\<close>. The result
  is \<open>None\<close> where the pattern is outside the modelled part of the pattern language.
\<close>

definition search_handler :: "world \<Rightarrow> string option \<Rightarrow> response option" where
  "search_handler w query =
     (if falsy query then Some (json 400 (Message ''Search query is required''))
      else if \<not> db_up w then Some server_error
      else case compile (str_of query) of
             Unmodelled \<Rightarrow> None
           | Rejected \<Rightarrow> Some server_error
           | Compiled r \<Rightarrow>
               Some (json 200
                 (Docs (take 10 (newest_first
                    (filter (\<lambda>b. rx_search r (bikeName b) \<or> rx_search r (modelName b)) (db w)))))))"

text \<open>
  The cast of a route parameter to an ObjectId: 24 hexadecimal digits, read as a number.
  (Older versions of the driver also take any string of 12 bytes; the model follows the
  versions that do not.)
\<close>

definition castObjectId :: "string \<Rightarrow> nat option" where
  "castObjectId s = (if length s = 24 then digits_val 16 s else None)"

text \<open>
  \<open>GET /api/bikes/:id\<close> (lines 144 to 155). A parameter that is no ObjectId makes
  \<open>findById\<close> throw, and the handler's \<open>catch\<close> answers 500.
\<close>

definition get_handler :: "world \<Rightarrow> string \<Rightarrow> response" where
  "get_handler w ident =
     (case castObjectId ident of
        None \<Rightarrow> server_error
      | Some oid \<Rightarrow>
          if \<not> db_up w then server_error
          else case find (\<lambda>b. bike_id b = oid) (db w) of
                 None \<Rightarrow> json 404 (Message ''Bike review not found'')
               | Some b \<Rightarrow> json 200 (Doc b))"

section \<open>The properties in the specification's words\<close>

text \<open>
  "Contains the query as a case-insensitive substring": the query, without the case of
  its letters, is a run of consecutive characters of the name without the case of its
  letters.
\<close>

definition ci_substring :: "string \<Rightarrow> string \<Rightarrow> bool" where
  "ci_substring q s = sublist (map fold_case q) (map fold_case s)"



text \<open>"Contains the query as a literal substring".\<close>

definition literal_substring :: "string \<Rightarrow> string \<Rightarrow> bool" where
  "literal_substring q s = sublist q s"





text \<open>The upload middleware accepts the files of a request; it refuses one of them.\<close>

definition upload_accepted :: "env \<Rightarrow> part list \<Rightarrow> bool" where
  "upload_accepted en ps =
     (case upload_array (stamp en) ps of Some (Inr x) \<Rightarrow> True | _ \<Rightarrow> False)"

definition upload_refused :: "env \<Rightarrow> part list \<Rightarrow> bool" where
  "upload_refused en ps =
     (case upload_array (stamp en) ps of Some (Inl e) \<Rightarrow> True | _ \<Rightarrow> False)"


section \<open>Concrete requests\<close>

text \<open>
  The scenario of the specification: rider Asha, a Royal Enfield Himalayan bought in
  2020, with JPEG images. \<open>scenario with n\<close> sends the fields of \<open>with\<close> and then
  the first \<open>n\<close> of six photos.
\<close>

definition photo :: "string \<Rightarrow> string \<Rightarrow> nat \<Rightarrow> upload" where
  "photo name ty len =
     \<lparr>fieldname = ''bikeImages'', originalname = name, mimetype = ty, file_size = len,
      decodable = True\<rparr>"

definition photos :: "upload list" where
  "photos = [photo ''front.jpg'' ''image/jpeg'' 204800, photo ''side.jpg'' ''image/jpeg'' 204800,
             photo ''rear.jpg'' ''image/jpeg'' 204800, photo ''dash.jpg'' ''image/jpeg'' 204800,
             photo ''seat.jpg'' ''image/jpeg'' 204800, photo ''tank.jpg'' ''image/jpeg'' 204800]"

definition asha_fields :: "part list" where
  "asha_fields =
     [FieldPart ''riderName'' ''Asha'', FieldPart ''bikeName'' ''Royal Enfield'',
      FieldPart ''modelName'' ''Himalayan'', FieldPart ''purchaseYear'' ''2020'',
      FieldPart ''totalKM'' ''15000'', FieldPart ''bikeCost'' ''250000'',
      FieldPart ''costPerService'' ''3000'', FieldPart ''review'' ''Reliable tourer'',
      FieldPart ''rating'' ''5'', FieldPart ''worthTheCost'' ''Definitely Yes'']"

definition without :: "string \<Rightarrow> part list \<Rightarrow> part list" where
  "without name ps = filter (\<lambda>p. case p of FieldPart n v \<Rightarrow> n \<noteq> name | FilePart u \<Rightarrow> True) ps"

definition scenario :: "part list \<Rightarrow> nat \<Rightarrow> part list" where
  "scenario flds n = flds @ map FilePart (take n photos)"

definition empty_world :: world where
  "empty_world = \<lparr>db = [], db_up = True, trace = []\<rparr>"

definition demo_env :: env where
  "demo_env = \<lparr>new_id = 1, now = 1700000000000, stamp = (\<lambda>k. (1700000000000 + k, 42))\<rparr>"

text \<open>The form of the scenario as the handler receives it, and the record it creates.\<close>

definition asha_form :: form where
  "asha_form =
     [''riderName'' \<mapsto> ''Asha'', ''bikeName'' \<mapsto> ''Royal Enfield'',
      ''modelName'' \<mapsto> ''Himalayan'', ''purchaseYear'' \<mapsto> ''2020'',
      ''totalKM'' \<mapsto> ''15000'', ''bikeCost'' \<mapsto> ''250000'',
      ''costPerService'' \<mapsto> ''3000'', ''review'' \<mapsto> ''Reliable tourer'',
      ''rating'' \<mapsto> ''5'', ''worthTheCost'' \<mapsto> ''Definitely Yes'']"

definition asha_bike :: bike where
  "asha_bike =
     \<lparr>bike_id = 1, riderName = ''Asha'', bikeName = ''Royal Enfield'',
      modelName = ''Himalayan'', purchaseYear = Num 2020, totalKM = Num 15000,
      bikeCost = Num 250000, costPerService = Num 3000, review = ''Reliable tourer'',
      rating = Num 5, worthTheCost = ''Definitely Yes'',
      images = [''/uploads/RoyalEnfield-Himalayan/compressed-1700000000000-42.jpg'',
                ''/uploads/RoyalEnfield-Himalayan/compressed-1700000000001-42.jpg'',
                ''/uploads/RoyalEnfield-Himalayan/compressed-1700000000002-42.jpg''],
      createdAt = 1700000000000\<rparr>"



text \<open>A file input of the form that was left unfilled, as the browser sends it.\<close>

definition unfilled :: upload where
  "unfilled =
     \<lparr>fieldname = ''bikeImages'', originalname = [], mimetype = ''application/octet-stream'',
      file_size = 0, decodable = False\<rparr>"

text \<open>The fields of a request with another rating.\<close>

definition with_rating :: "string \<Rightarrow> part list \<Rightarrow> part list" where
  "with_rating t ps =
     map (\<lambda>p. case p of
                 FieldPart n v \<Rightarrow> if n = ''rating'' then FieldPart n t else p
               | FilePart u \<Rightarrow> p) ps"

text \<open>The scenario with one of its three images replaced: by a WebP image, by a JPEG of 6 MiB.\<close>

definition webp_request :: "part list" where
  "webp_request =
     scenario asha_fields 2 @ [FilePart (photo ''rear.webp'' ''image/webp'' 204800)]"

definition oversize_request :: "part list" where
  "oversize_request =
     scenario asha_fields 2 @ [FilePart (photo ''rear.jpg'' ''image/jpeg'' (6 * 1024 * 1024))]"

text \<open>A collection of three reviews for the queries.\<close>

definition demo_bike :: "nat \<Rightarrow> string \<Rightarrow> string \<Rightarrow> int \<Rightarrow> bike" where
  "demo_bike oid b m t =
     \<lparr>bike_id = oid, riderName = ''Asha'', bikeName = b, modelName = m,
      purchaseYear = Num 2020, totalKM = Num 15000, bikeCost = Num 250000,
      costPerService = Num 3000, review = ''Reliable tourer'', rating = Num 5,
      worthTheCost = ''Yes'', images = [], createdAt = t\<rparr>"

definition demo_world :: world where
  "demo_world =
     \<lparr>db = [demo_bike 1 ''Royal Enfield'' ''Himalayan'' 100,
             demo_bike 2 ''Bajaj'' ''Pulsar (NS200)'' 200,
             demo_bike 3 ''Honda'' ''CB350'' 300],
      db_up = True, trace = []\<rparr>"

text \<open>A collection of twelve reviews of the same bike, the oldest first.\<close>

definition honda :: "nat \<Rightarrow> bike" where
  "honda k = demo_bike k ''Honda'' ''CB350'' (int k)"

definition crowded_world :: world where
  "crowded_world = \<lparr>db = map honda [1, 2, 3, 4, 5, 6, 7, 8, 9, 10, 11, 12], db_up = True, trace = []\<rparr>"

section \<open>Properties\<close>

text \<open>The definitions that evaluate a concrete request, by layer.\<close>

lemmas js_defs = falsy_def js_white_def js_trim_def digit_of_def digits_val_def
  exponent_part_def unsigned_decimal_def js_negate_def ToNumber_def Number_def js_lt_def js_ge_def
  digit_char_def dec.simps strip_ws_def extname_def str_of_def num_or_def
  bits.simps log2_floor_def round_half_even_def scale2_def binary64_def Let_def

lemmas schema_defs = required_string_def cast_ok_def required_number_def min_max_def
  worth_enum_def enum_ok_def validate_def new_Bike_def review_fields_def

lemmas upload_defs = new_Error_def MulterError_def fileSize_def allowedTypes_def fileFilter_def
  folderName_of_def path_component_def destination_cb_def filename_cb_def plain_field_def
  upload_array_def upload.extend_def stored.fields_def

lemmas handler_defs = json_def final_handler_def rating_out_of_range_def fields_rejected_def
  process_image_def save_def io_emit_def server_error_def files_of_def add_handler_def
  submit_def

lemmas scenario_defs = photo_def photos_def asha_fields_def without_def scenario_def
  empty_world_def demo_env_def asha_form_def asha_bike_def webp_request_def
  oversize_request_def unfilled_def with_rating_def

subsection \<open>The upload middleware\<close>













subsection \<open>The handler\<close>







subsection \<open>The scenarios, evaluated\<close>













lemma unfilled_run3:
  "submit demo_env empty_world (scenario asha_fields 3 @ [FilePart unfilled]) =
     Some (json 201 (Doc asha_bike),
           \<lparr>db = [asha_bike], db_up = True,
            trace = [Inserted asha_bike, Emitted ''newReview'' asha_bike]\<rparr>)"
  by (simp add: scenario_defs handler_defs upload_defs schema_defs js_defs)




subsection \<open>Effects\<close>



subsection \<open>The number of images\<close>








subsection \<open>Files that the upload middleware refuses\<close>





subsection \<open>Number fields that the form leaves out\<close>

text \<open>
  The schema's default is there: a document built without \<open>totalKM\<close> or without
  \<open>costPerService\<close> has 0 there and is valid.
\<close>

lemma schema_defaults:
  "totalKM (new_Bike oid t (i\<lparr>in_totalKM := None\<rparr>)) = Num 0"
  "costPerService (new_Bike oid t (i\<lparr>in_costPerService := None\<rparr>)) = Num 0"
  "cast_ok None"
  by (simp_all add: new_Bike_def num_or_def cast_ok_def)

text \<open>
  The handler never leaves the path unset: it passes \<open>Number(undefined)\<close>, which is
  \<open>NaN\<close>, and the document does not validate.
\<close>

lemma missing_number_not_created:
  assumes "rb ''totalKM'' = None \<or> rb ''costPerService'' = None"
  shows "status (fst (add_handler en w rb files)) \<noteq> 201"
proof -
  have "\<not> validate (review_fields rb paths)" for paths
    using assms by (auto simp: validate_def review_fields_def cast_ok_def Number_def)
  then show ?thesis
    by (auto simp: add_handler_def Let_def save_def json_def server_error_def
             split: sum.splits)
qed

text \<open>
  C7 fails on the code. The scenario without the field \<open>totalKM\<close>, and the scenario
  without the field \<open>costPerService\<close>, are answered with 500 and store nothing.
\<close>

theorem omitted_number_field_is_500:
  "submit demo_env empty_world (scenario (without ''totalKM'' asha_fields) 3) =
     Some (server_error, empty_world) \<and>
   submit demo_env empty_world (scenario (without ''costPerService'' asha_fields) 3) =
     Some (server_error, empty_world)"
  by (simp add: scenario_defs handler_defs upload_defs schema_defs js_defs)

subsection \<open>The grouping key and the image references\<close>







subsection \<open>The text of an integer reads as the float nearest to this integer\<close>












subsection \<open>Rounding an integer\<close>











subsection \<open>The rating\<close>



lemma upload_accepted_iff:
  "upload_accepted en ps \<longleftrightarrow> (\<exists>rb fs. upload_array (stamp en) ps = Some (Inr (rb, fs)))"
  by (auto simp: upload_accepted_def split: option.splits sum.splits)

lemma upload_refused_iff:
  "upload_refused en ps \<longleftrightarrow> (\<exists>e. upload_array (stamp en) ps = Some (Inl e))"
  by (auto simp: upload_refused_def split: option.splits sum.splits)













subsection \<open>Reading a review by its identifier\<close>

lemma find_absent: "(\<forall>b \<in> set bs. bike_id b \<noteq> oid) \<Longrightarrow> find (\<lambda>b. bike_id b = oid) bs = None"
  by (simp add: find_None_iff)

lemma find_distinct:
  "distinct (map bike_id bs) \<Longrightarrow> b \<in> set bs \<Longrightarrow> find (\<lambda>x. bike_id x = bike_id b) bs = Some b"
  by (induction bs) (auto simp: image_iff)



text \<open>
  C8, as the code has it. While the database answers: for an identifier of 24
  hexadecimal digits that no record has, the answer is 404; for an identifier of a stored
  record (identifiers being unique), the answer is 200 with exactly this record.
  An identifier that is not 24 hexadecimal digits is outside this statement: it has no
  matching record either, and the answer is 500.
\<close>

theorem get_handler_by_id:
  assumes "db_up w" and "castObjectId ident = Some oid"
  shows "((\<forall>b \<in> set (db w). bike_id b \<noteq> oid) \<longrightarrow>
            get_handler w ident = json 404 (Message ''Bike review not found'')) \<and>
         (\<forall>b. distinct (map bike_id (db w)) \<and> b \<in> set (db w) \<and> bike_id b = oid \<longrightarrow>
            get_handler w ident = json 200 (Doc b))"
proof (intro conjI impI allI)
  assume "\<forall>b \<in> set (db w). bike_id b \<noteq> oid"
  then show "get_handler w ident = json 404 (Message ''Bike review not found'')"
    using assms by (simp add: get_handler_def find_absent)
next
  fix b
  assume "distinct (map bike_id (db w)) \<and> b \<in> set (db w) \<and> bike_id b = oid"
  then have "find (\<lambda>x. bike_id x = oid) (db w) = Some b"
    using find_distinct[of "db w" b] by auto
  then show "get_handler w ident = json 200 (Doc b)"
    using assms by (simp add: get_handler_def)
qed

theorem get_handler_by_id_witness:
  "get_handler demo_world ''0000000000000000000000ff'' = json 404 (Message ''Bike review not found'') \<and>
   get_handler demo_world ''000000000000000000000002'' =
     json 200 (Doc (demo_bike 2 ''Bajaj'' ''Pulsar (NS200)'' 200))"
proof -
  have up: "db_up demo_world" by (simp add: demo_world_def)
  have c1: "castObjectId ''0000000000000000000000ff'' = Some 255"
    and c2: "castObjectId ''000000000000000000000002'' = Some 2"
    by (simp_all add: castObjectId_def digits_val_def digit_of_def)
  have no: "\<forall>b \<in> set (db demo_world). bike_id b \<noteq> 255"
    by (simp add: demo_world_def demo_bike_def)
  have yes: "distinct (map bike_id (db demo_world)) \<and>
             demo_bike 2 ''Bajaj'' ''Pulsar (NS200)'' 200 \<in> set (db demo_world) \<and>
             bike_id (demo_bike 2 ''Bajaj'' ''Pulsar (NS200)'' 200) = 2"
    by (simp add: demo_world_def demo_bike_def)
  from get_handler_by_id[OF up c1] no get_handler_by_id[OF up c2] yes
  show ?thesis by blast
qed

text \<open>
  The claim C8 as it is written fails on the identifier \<open>abc\<close>: no record matches it, the
  database answers, and the answer is 500, where the claim says 404.
\<close>

theorem malformed_id_counterexample:
  "db_up empty_world \<and> db empty_world = [] \<and>
   get_handler empty_world ''abc'' = json 500 (Message ''Server error'')"
  by (simp add: get_handler_def castObjectId_def empty_world_def server_error_def)

subsection \<open>Reading back what was submitted\<close>





subsection \<open>Patterns of literal characters\<close>

lemma plain_char_not_special:
  assumes "plain_char c"
  shows "c \<noteq> CHR 0x5C" "c \<noteq> CHR ''(''" "c \<noteq> CHR '')''" "c \<noteq> CHR ''|''" "c \<noteq> CHR ''*''"
    "c \<noteq> CHR ''+''" "c \<noteq> CHR ''?''" "c \<noteq> CHR ''.''"
  using assms by (auto simp: plain_char_def special_chars_def)

lemma parse_rx_plain:
  "list_all plain_char q \<Longrightarrow> q \<noteq> [] \<Longrightarrow>
     parse_rx q False ((alts, items, l) # up) =
     parse_rx [] False ((alts, rev (map Lit q) @ items, AfterItem) # up)"
proof (induction q arbitrary: items l)
  case Nil
  then show ?case by simp
next
  case (Cons c q)
  then have c: "plain_char c" and q: "list_all plain_char q" by simp_all
  have step: "parse_rx (c # q) False ((alts, items, l) # up) =
              parse_rx q False ((alts, Lit c # items, AfterItem) # up)"
    using c plain_char_not_special[OF c] by simp
  show ?case
  proof (cases "q = []")
    case True
    from step show ?thesis unfolding True by (simp del: parse_rx.simps)
  next
    case False
    from step Cons.IH[OF q False, of "Lit c # items" AfterItem] show ?thesis
      by (simp del: parse_rx.simps)
  qed
qed

lemma compile_plain:
  assumes "list_all plain_char q" and "q \<noteq> []"
  shows "compile q = Compiled (foldr Seq (map Lit q) Empty)"
  by (simp add: compile_def parse_rx_plain[OF assms] close_frame_def seq_of_def)

lemma prefix_match_Seq_Never: "\<not> prefix_match (Seq Never r) s"
  by (induction s) auto

lemma prefix_match_Or: "prefix_match (Or a b) s \<longleftrightarrow> prefix_match a s \<or> prefix_match b s"
  by (induction s arbitrary: a b) auto

lemma prefix_match_Seq_Empty: "prefix_match (Seq Empty r) s \<longleftrightarrow> prefix_match r s"
  by (cases s) (auto simp: prefix_match_Or prefix_match_Seq_Never)

lemma prefix_match_Empty: "prefix_match Empty s"
  by (cases s) auto

lemma prefix_match_literals:
  "prefix_match (foldr Seq (map Lit q) Empty) s \<longleftrightarrow> prefix (map fold_case q) (map fold_case s)"
proof (induction q arbitrary: s)
  case Nil
  then show ?case by (simp add: prefix_match_Empty)
next
  case (Cons a q)
  show ?case
  proof (cases s)
    case Nil
    then show ?thesis by simp
  next
    case (Cons c cs)
    then show ?thesis
      using Cons.IH[of cs]
      by (auto simp: prefix_match_Seq_Empty prefix_match_Seq_Never)
  qed
qed

lemma nullable_literals: "nullable (foldr Seq (map Lit q) Empty) \<longleftrightarrow> q = []"
  by (cases q) auto

lemma rx_search_literals:
  "rx_search (foldr Seq (map Lit q) Empty) s \<longleftrightarrow> ci_substring q s"
proof (induction s)
  case Nil
  then show ?case by (simp add: nullable_literals ci_substring_def)
next
  case (Cons c cs)
  have "rx_search (foldr Seq (map Lit q) Empty) (c # cs) \<longleftrightarrow>
          prefix_match (foldr Seq (map Lit q) Empty) (c # cs) \<or>
          rx_search (foldr Seq (map Lit q) Empty) cs"
    by simp
  also have "\<dots> \<longleftrightarrow> prefix (map fold_case q) (map fold_case (c # cs)) \<or> ci_substring q cs"
    by (simp only: prefix_match_literals Cons.IH)
  also have "\<dots> \<longleftrightarrow> ci_substring q (c # cs)"
    by (simp add: ci_substring_def sublist_Cons_right)
  finally show ?case .
qed

subsection \<open>The newest ten\<close>

lemma newest_first_set: "set (newest_first bs) = set bs"
  by (simp add: newest_first_def)

lemma newest_first_sorted: "sorted_wrt (\<lambda>a b. createdAt b \<le> createdAt a) (newest_first bs)"
proof -
  have "sorted (map (\<lambda>b. - createdAt b) (newest_first bs))"
    by (simp add: newest_first_def)
  then show ?thesis by (simp add: sorted_map)
qed

lemma newest_ten:
  fixes hits :: "bike list"
  defines "found \<equiv> take 10 (newest_first hits)"
  shows "length found \<le> 10"
    and "sorted_wrt (\<lambda>a b. createdAt b \<le> createdAt a) found"
    and "set found \<subseteq> set hits"
    and "length hits \<le> 10 \<Longrightarrow> set found = set hits"
    and "\<forall>x \<in> set hits - set found. \<forall>y \<in> set found. createdAt x \<le> createdAt y"
proof -
  show "length found \<le> 10" by (simp add: found_def)
  show "sorted_wrt (\<lambda>a b. createdAt b \<le> createdAt a) found"
    unfolding found_def by (rule sorted_wrt_take[OF newest_first_sorted])
  show "set found \<subseteq> set hits"
    unfolding found_def using set_take_subset[of 10 "newest_first hits"]
    by (simp add: newest_first_set)
  show "set found = set hits" if "length hits \<le> 10"
    using that by (simp add: found_def newest_first_set newest_first_def)
  show "\<forall>x \<in> set hits - set found. \<forall>y \<in> set found. createdAt x \<le> createdAt y"
  proof (intro ballI)
    fix x y
    assume x: "x \<in> set hits - set found" and y: "y \<in> set found"
    have split: "newest_first hits = found @ drop 10 (newest_first hits)"
      by (simp add: found_def)
    have "x \<in> set (newest_first hits)" using x by (simp add: newest_first_set)
    then have "x \<in> set (drop 10 (newest_first hits))"
      using x by (subst (asm) split) auto
    moreover have "sorted_wrt (\<lambda>a b. createdAt b \<le> createdAt a) (found @ drop 10 (newest_first hits))"
      using newest_first_sorted[of hits] split by simp
    ultimately show "createdAt x \<le> createdAt y"
      using y by (auto simp: sorted_wrt_append)
  qed
qed

subsection \<open>Queries on the three reviews\<close>

lemmas rx_defs = compile_def plain_char_def special_chars_def escapable_def alnum_def seq_of_def
  close_frame_def quantify_def fold_case_def

lemmas search_defs = search_handler_def falsy_def str_of_def json_def server_error_def
  newest_first_def demo_world_def demo_bike_def

lemma search_dot:
  "search_handler demo_world (Some ''.'') =
     Some (json 200 (Docs [demo_bike 3 ''Honda'' ''CB350'' 300,
                           demo_bike 2 ''Bajaj'' ''Pulsar (NS200)'' 200,
                           demo_bike 1 ''Royal Enfield'' ''Himalayan'' 100]))"
  by (simp add: search_defs rx_defs)

lemma search_bar:
  "search_handler demo_world (Some ''nda|jaj'') =
     Some (json 200 (Docs [demo_bike 3 ''Honda'' ''CB350'' 300,
                           demo_bike 2 ''Bajaj'' ''Pulsar (NS200)'' 200]))"
  by (simp add: search_defs rx_defs)

lemma search_open_paren:
  "search_handler demo_world (Some ''('') = Some (json 500 (Message ''Server error''))"
  by (simp add: search_defs rx_defs)


text \<open>
  C2, as the code has it. A search without a query, or with the empty query, is answered
  with 400. While the database answers, a search whose query consists of ASCII characters
  other than NUL (the characters with the codes 1 to 127) that mean themselves in a
  pattern (none of \<open>\ ^ $ . [ ] | ( ) ? * + { }\<close>) is answered with the records whose
  \<open>bikeName\<close> or \<open>modelName\<close> contains the query as a substring up to the case of the
  letters \<open>A\<close> to \<open>Z\<close>, newest first, cut after the tenth: at most ten records, ordered by
  creation time descending, all of them matching, all matching ones when there are at
  most ten, and otherwise none left out that is newer than one returned.
\<close>

theorem search_by_name:
  "(falsy query \<longrightarrow>
      search_handler w query = Some (json 400 (Message ''Search query is required''))) \<and>
   (\<not> falsy query \<and> list_all plain_char (str_of query) \<and> db_up w \<longrightarrow>
      (let hits = filter (\<lambda>b. ci_substring (str_of query) (bikeName b) \<or>
                              ci_substring (str_of query) (modelName b)) (db w);
           found = take 10 (newest_first hits)
       in search_handler w query = Some (json 200 (Docs found)) \<and>
          length found \<le> 10 \<and>
          sorted_wrt (\<lambda>a b. createdAt b \<le> createdAt a) found \<and>
          set found \<subseteq> set hits \<and>
          (length hits \<le> 10 \<longrightarrow> set found = set hits) \<and>
          (\<forall>x \<in> set hits - set found. \<forall>y \<in> set found. createdAt x \<le> createdAt y)))"
proof (intro conjI impI)
  assume "falsy query"
  then show "search_handler w query = Some (json 400 (Message ''Search query is required''))"
    by (simp add: search_handler_def)
next
  assume h: "\<not> falsy query \<and> list_all plain_char (str_of query) \<and> db_up w"
  then have ne: "str_of query \<noteq> []"
    by (cases query) (auto simp: falsy_def str_of_def)
  have c: "compile (str_of query) = Compiled (foldr Seq (map Lit (str_of query)) Empty)"
    using h ne by (simp add: compile_plain)
  have "search_handler w query =
      Some (json 200 (Docs (take 10 (newest_first
        (filter (\<lambda>b. ci_substring (str_of query) (bikeName b) \<or>
                     ci_substring (str_of query) (modelName b)) (db w))))))"
    using h by (simp add: search_handler_def c rx_search_literals)
  then show "let hits = filter (\<lambda>b. ci_substring (str_of query) (bikeName b) \<or>
                              ci_substring (str_of query) (modelName b)) (db w);
           found = take 10 (newest_first hits)
       in search_handler w query = Some (json 200 (Docs found)) \<and>
          length found \<le> 10 \<and>
          sorted_wrt (\<lambda>a b. createdAt b \<le> createdAt a) found \<and>
          set found \<subseteq> set hits \<and>
          (length hits \<le> 10 \<longrightarrow> set found = set hits) \<and>
          (\<forall>x \<in> set hits - set found. \<forall>y \<in> set found. createdAt x \<le> createdAt y)"
    unfolding Let_def
    using newest_ten[of "filter (\<lambda>b. ci_substring (str_of query) (bikeName b) \<or>
                              ci_substring (str_of query) (modelName b)) (db w)"]
    by blast
qed

theorem search_by_name_witness:
  "search_handler demo_world None = Some (json 400 (Message ''Search query is required'')) \<and>
   search_handler demo_world (Some []) = Some (json 400 (Message ''Search query is required'')) \<and>
   search_handler demo_world (Some ''royal'') =
     Some (json 200 (Docs [demo_bike 1 ''Royal Enfield'' ''Himalayan'' 100])) \<and>
   search_handler demo_world (Some ''A'') =
     Some (json 200 (Docs [demo_bike 3 ''Honda'' ''CB350'' 300,
                           demo_bike 2 ''Bajaj'' ''Pulsar (NS200)'' 200,
                           demo_bike 1 ''Royal Enfield'' ''Himalayan'' 100])) \<and>
   search_handler crowded_world (Some ''honda'') =
     Some (json 200 (Docs (map honda [12, 11, 10, 9, 8, 7, 6, 5, 4, 3])))"
proof -
  have f: "falsy None" "falsy (Some [])"
    by (simp_all add: falsy_def)
  have hc: "\<not> falsy (Some ''honda'') \<and> list_all plain_char (str_of (Some ''honda'')) \<and>
            db_up crowded_world"
    by (simp add: falsy_def str_of_def plain_char_def special_chars_def crowded_world_def)
  have hits_c:
    "filter (\<lambda>b. ci_substring (str_of (Some ''honda'')) (bikeName b) \<or>
                 ci_substring (str_of (Some ''honda'')) (modelName b)) (db crowded_world) =
       map honda [1, 2, 3, 4, 5, 6, 7, 8, 9, 10, 11, 12]"
    by (simp add: str_of_def ci_substring_def sublist_code fold_case_def crowded_world_def
          honda_def demo_bike_def)
  have sorted_c:
    "take 10 (newest_first (map honda [1, 2, 3, 4, 5, 6, 7, 8, 9, 10, 11, 12])) =
       map honda [12, 11, 10, 9, 8, 7, 6, 5, 4, 3]"
    by (simp add: newest_first_def honda_def demo_bike_def)
  from search_by_name[of "Some ''honda''" crowded_world] hc
  have e: "search_handler crowded_world (Some ''honda'') =
     Some (json 200 (Docs (map honda [12, 11, 10, 9, 8, 7, 6, 5, 4, 3])))"
    unfolding Let_def hits_c sorted_c by blast
  have h: "\<not> falsy (Some ''royal'') \<and> list_all plain_char (str_of (Some ''royal'')) \<and>
           db_up demo_world"
      "\<not> falsy (Some ''A'') \<and> list_all plain_char (str_of (Some ''A'')) \<and> db_up demo_world"
    by (simp_all add: falsy_def str_of_def plain_char_def special_chars_def demo_world_def)
  have hits:
    "filter (\<lambda>b. ci_substring (str_of (Some ''royal'')) (bikeName b) \<or>
                 ci_substring (str_of (Some ''royal'')) (modelName b)) (db demo_world) =
       [demo_bike 1 ''Royal Enfield'' ''Himalayan'' 100]"
    "filter (\<lambda>b. ci_substring (str_of (Some ''A'')) (bikeName b) \<or>
                 ci_substring (str_of (Some ''A'')) (modelName b)) (db demo_world) =
       [demo_bike 1 ''Royal Enfield'' ''Himalayan'' 100,
        demo_bike 2 ''Bajaj'' ''Pulsar (NS200)'' 200,
        demo_bike 3 ''Honda'' ''CB350'' 300]"
    by (simp_all add: str_of_def ci_substring_def sublist_code fold_case_def demo_world_def
          demo_bike_def)
  have sorted:
    "take 10 (newest_first [demo_bike 1 ''Royal Enfield'' ''Himalayan'' 100]) =
       [demo_bike 1 ''Royal Enfield'' ''Himalayan'' 100]"
    "take 10 (newest_first [demo_bike 1 ''Royal Enfield'' ''Himalayan'' 100,
        demo_bike 2 ''Bajaj'' ''Pulsar (NS200)'' 200,
        demo_bike 3 ''Honda'' ''CB350'' 300]) =
       [demo_bike 3 ''Honda'' ''CB350'' 300,
        demo_bike 2 ''Bajaj'' ''Pulsar (NS200)'' 200,
        demo_bike 1 ''Royal Enfield'' ''Himalayan'' 100]"
    by (simp_all add: newest_first_def demo_bike_def)
  from search_by_name[of None demo_world] f(1)
  have a: "search_handler demo_world None = Some (json 400 (Message ''Search query is required''))"
    by blast
  from search_by_name[of "Some []" demo_world] f(2)
  have b: "search_handler demo_world (Some []) =
             Some (json 400 (Message ''Search query is required''))"
    by blast
  from search_by_name[of "Some ''royal''" demo_world] h(1)
  have c: "search_handler demo_world (Some ''royal'') =
     Some (json 200 (Docs [demo_bike 1 ''Royal Enfield'' ''Himalayan'' 100]))"
    unfolding Let_def hits sorted by blast
  from search_by_name[of "Some ''A''" demo_world] h(2)
  have d: "search_handler demo_world (Some ''A'') =
     Some (json 200 (Docs [demo_bike 3 ''Honda'' ''CB350'' 300,
                           demo_bike 2 ''Bajaj'' ''Pulsar (NS200)'' 200,
                           demo_bike 1 ''Royal Enfield'' ''Himalayan'' 100]))"
    unfolding Let_def hits sorted by blast
  from a b c d e show ?thesis by blast
qed

text \<open>
  The claim C2 as it is written fails on the query \<open>.\<close>: no review has a name that
  contains a full stop, and the search returns all three.
\<close>

theorem pattern_query_counterexample:
  "filter (\<lambda>b. ci_substring ''.'' (bikeName b) \<or> ci_substring ''.'' (modelName b))
     (db demo_world) = [] \<and>
   search_handler demo_world (Some ''.'') =
     Some (json 200 (Docs [demo_bike 3 ''Honda'' ''CB350'' 300,
                           demo_bike 2 ''Bajaj'' ''Pulsar (NS200)'' 200,
                           demo_bike 1 ''Royal Enfield'' ''Himalayan'' 100]))"
proof -
  have "filter (\<lambda>b. ci_substring ''.'' (bikeName b) \<or> ci_substring ''.'' (modelName b))
     (db demo_world) = []"
    by (simp add: ci_substring_def sublist_code fold_case_def demo_world_def demo_bike_def)
  with search_dot show ?thesis by blast
qed

text \<open>
  C10. The search reads its query as a pattern. On the three reviews, the query \<open>.\<close>
  returns all of them and the query \<open>nda|jaj\<close> returns two, and none of the returned
  reviews has the query as a literal substring of its \<open>bikeName\<close> or of its \<open>modelName\<close>.
  The query \<open>(\<close> is no pattern: the search is answered with 500, although a stored
  review, \<open>Pulsar (NS200)\<close>, contains the query as a literal substring.
\<close>

theorem search_reads_query_as_pattern:
  "search_handler demo_world (Some ''.'') =
     Some (json 200 (Docs [demo_bike 3 ''Honda'' ''CB350'' 300,
                           demo_bike 2 ''Bajaj'' ''Pulsar (NS200)'' 200,
                           demo_bike 1 ''Royal Enfield'' ''Himalayan'' 100])) \<and>
   list_all (\<lambda>b. \<not> literal_substring ''.'' (bikeName b) \<and> \<not> literal_substring ''.'' (modelName b))
     [demo_bike 3 ''Honda'' ''CB350'' 300, demo_bike 2 ''Bajaj'' ''Pulsar (NS200)'' 200,
      demo_bike 1 ''Royal Enfield'' ''Himalayan'' 100] \<and>
   search_handler demo_world (Some ''nda|jaj'') =
     Some (json 200 (Docs [demo_bike 3 ''Honda'' ''CB350'' 300,
                           demo_bike 2 ''Bajaj'' ''Pulsar (NS200)'' 200])) \<and>
   list_all (\<lambda>b. \<not> literal_substring ''nda|jaj'' (bikeName b) \<and>
                 \<not> literal_substring ''nda|jaj'' (modelName b))
     [demo_bike 3 ''Honda'' ''CB350'' 300, demo_bike 2 ''Bajaj'' ''Pulsar (NS200)'' 200] \<and>
   compile ''('' = Rejected \<and>
   demo_bike 2 ''Bajaj'' ''Pulsar (NS200)'' 200 \<in> set (db demo_world) \<and>
   literal_substring ''('' (modelName (demo_bike 2 ''Bajaj'' ''Pulsar (NS200)'' 200)) \<and>
   search_handler demo_world (Some ''('') = Some (json 500 (Message ''Server error''))"
proof -
  have "list_all (\<lambda>b. \<not> literal_substring ''.'' (bikeName b) \<and> \<not> literal_substring ''.'' (modelName b))
     [demo_bike 3 ''Honda'' ''CB350'' 300, demo_bike 2 ''Bajaj'' ''Pulsar (NS200)'' 200,
      demo_bike 1 ''Royal Enfield'' ''Himalayan'' 100]"
    by (simp add: literal_substring_def sublist_code demo_bike_def)
  moreover have "list_all (\<lambda>b. \<not> literal_substring ''nda|jaj'' (bikeName b) \<and>
                 \<not> literal_substring ''nda|jaj'' (modelName b))
     [demo_bike 3 ''Honda'' ''CB350'' 300, demo_bike 2 ''Bajaj'' ''Pulsar (NS200)'' 200]"
    by (simp add: literal_substring_def sublist_code demo_bike_def)
  moreover have "compile ''('' = Rejected"
    by (simp add: rx_defs)
  moreover have "demo_bike 2 ''Bajaj'' ''Pulsar (NS200)'' 200 \<in> set (db demo_world)"
    by (simp add: demo_world_def)
  moreover have "literal_substring ''('' (modelName (demo_bike 2 ''Bajaj'' ''Pulsar (NS200)'' 200))"
    by (simp add: literal_substring_def sublist_code demo_bike_def)
  ultimately show ?thesis
    using search_dot search_bar search_open_paren by blast
qed

end
